theory Spec2Isabelle
  imports Complex_Main
begin

section \<open>Python values and exceptions\<close>

text \<open>
  The values the validators of \<^verbatim>\<open>objects/base/validators.py\<close> inspect. The module is
  Python 2 code (\<^verbatim>\<open>basestring\<close>, \<^verbatim>\<open>unicode\<close>): a \<^verbatim>\<open>str\<close> is a byte string,
  a \<^verbatim>\<open>unicode\<close> a list of code points. A \<^verbatim>\<open>float\<close> is modelled by the real number
  it denotes: rounding and overflow of IEEE doubles are outside this development.
\<close>

datatype pyval =
    PNone
  | PBool bool
  | PInt int
  | PFloat real
  | PStr string
  | PUnicode "nat list"
  | PTuple "pyval list"
  | PList "pyval list"

text \<open>
  An exception raised with \<^verbatim>\<open>"template" % args\<close> (or \<^verbatim>\<open>"template".format(...)\<close>)
  is kept as the template together with the values formatted into it.
\<close>

datatype error =
    FontPartsError string "pyval list"
  | AssertionError
  | UnboundLocalError string
  | TypeError
  | ValueError
  | IndexError
  | AttributeError
  | UnicodeDecodeError
  | Dangling

text \<open>
  \<open>Dangling\<close> is not an exception of Python: it is the outcome of reading an object that
  the modelled state does not hold, which no state reached from the program has.
\<close>

text \<open>\<^verbatim>\<open>type(value).__name__\<close>\<close>

fun type_name :: "pyval \<Rightarrow> string" where
  "type_name PNone = ''NoneType''"
| "type_name (PBool _) = ''bool''"
| "type_name (PInt _) = ''int''"
| "type_name (PFloat _) = ''float''"
| "type_name (PStr _) = ''str''"
| "type_name (PUnicode _) = ''unicode''"
| "type_name (PTuple _) = ''tuple''"
| "type_name (PList _) = ''list''"

text \<open>\<^verbatim>\<open>isinstance(value, basestring)\<close>\<close>

fun isinstance_basestring :: "pyval \<Rightarrow> bool" where
  "isinstance_basestring (PStr _) = True"
| "isinstance_basestring (PUnicode _) = True"
| "isinstance_basestring _ = False"



text \<open>\<^verbatim>\<open>len(value)\<close>: a \<^verbatim>\<open>TypeError\<close> for a value without a length.\<close>

fun py_len :: "pyval \<Rightarrow> error + nat" where
  "py_len (PStr s) = Inr (length s)"
| "py_len (PUnicode cs) = Inr (length cs)"
| "py_len (PTuple xs) = Inr (length xs)"
| "py_len (PList xs) = Inr (length xs)"
| "py_len _ = Inl TypeError"

text \<open>The code points \<^verbatim>\<open>ord(c)\<close> of the characters a \<^verbatim>\<open>for c in value\<close> visits.\<close>

fun ords :: "pyval \<Rightarrow> error + nat list" where
  "ords (PStr s) = Inr (map of_char s)"
| "ords (PUnicode cs) = Inr cs"
| "ords _ = Inl TypeError"


text \<open>
  \<^verbatim>\<open>float(v)\<close> on a number. Parsing a string is not modelled (it is a \<^verbatim>\<open>ValueError\<close>
  here); no caller below reaches it.
\<close>

fun py_float :: "pyval \<Rightarrow> error + pyval" where
  "py_float (PBool b) = Inr (PFloat (if b then 1 else 0))"
| "py_float (PInt i) = Inr (PFloat (of_int i))"
| "py_float (PFloat r) = Inr (PFloat r)"
| "py_float (PStr _) = Inl ValueError"
| "py_float (PUnicode _) = Inl ValueError"
| "py_float _ = Inl TypeError"

text \<open>The list comprehension \<^verbatim>\<open>[f(v) for v in xs]\<close>, stopping at the first exception.\<close>

fun comprehension :: "('a \<Rightarrow> error + 'b) \<Rightarrow> 'a list \<Rightarrow> error + 'b list" where
  "comprehension f [] = Inr []"
| "comprehension f (x # xs) =
     (case f x of
        Inl e \<Rightarrow> Inl e
      | Inr y \<Rightarrow> (case comprehension f xs of Inl e \<Rightarrow> Inl e | Inr ys \<Rightarrow> Inr (y # ys)))"


section \<open>validators.py\<close>

subsection \<open>validateIdentifier\<close>

text \<open>
  The loop \<^verbatim>\<open>for c in value: v = ord(c); if v < 0x20 or v > 0x7E: raise ...\<close>, over the
  code points still to visit; \<open>None\<close> when it runs to its end.
\<close>

fun validateIdentifier_loop :: "pyval \<Rightarrow> nat list \<Rightarrow> error option" where
  "validateIdentifier_loop value [] = None"
| "validateIdentifier_loop value (v # vs) =
     (if v < 0x20 \<or> v > 0x7E
      then Some (FontPartsError
        ''The identifier string (%r) contains a character out size of the range 0x20 - 0x7E.''
        [value])
      else validateIdentifier_loop value vs)"

definition validateIdentifier :: "pyval \<Rightarrow> error + pyval" where
  "validateIdentifier value =
     (if \<not> isinstance_basestring value
      then Inl (FontPartsError ''Identifiers must be strings, not %s.'' [PStr (type_name value)])
      else case py_len value of
        Inl e \<Rightarrow> Inl e
      | Inr n \<Rightarrow>
          if n > 100
          then Inl (FontPartsError
            ''The identifier string has a langth (%d) greater than the maximum allowed (100).''
            [PInt (int n)])
          else (case ords value of
            Inl e \<Rightarrow> Inl e
          | Inr cs \<Rightarrow>
              (case validateIdentifier_loop value cs of
                 Some e \<Rightarrow> Inl e
               | None \<Rightarrow> Inr value)))"

subsection \<open>validateTransformationMatrix\<close>




section \<open>base.py: helpers\<close>

subsection \<open>interpolate\<close>


subsection \<open>BaseObject.raiseNotImplementedError\<close>

text \<open>
  Of an object, the hooks below read only \<^verbatim>\<open>self.__class__.__name__\<close>.
\<close>

record pyobject =
  class_name :: string

definition raiseNotImplementedError :: "'a pyobject_scheme \<Rightarrow> error + 'b" where
  "raiseNotImplementedError self =
     Inl (FontPartsError ''The {className} subclass does not implement this method.''
       [PStr (class_name self)])"

text \<open>
  A base-class hook is the statement \<^verbatim>\<open>self.raiseNotImplementedError()\<close> followed by the
  end of the function body, where Python returns \<^verbatim>\<open>None\<close>.
\<close>

definition BaseFeatures_get_text :: "'a pyobject_scheme \<Rightarrow> error + pyval" where
  "BaseFeatures_get_text self =
     (case (raiseNotImplementedError self :: error + pyval) of
        Inl e \<Rightarrow> Inl e
      | Inr _ \<Rightarrow> Inr PNone)"

definition BaseFeatures_set_text :: "'a pyobject_scheme \<Rightarrow> pyval \<Rightarrow> error + pyval" where
  "BaseFeatures_set_text self value =
     (case (raiseNotImplementedError self :: error + pyval) of
        Inl e \<Rightarrow> Inl e
      | Inr _ \<Rightarrow> Inr PNone)"

definition BaseFont_save ::
    "'a pyobject_scheme \<Rightarrow> pyval \<Rightarrow> pyval \<Rightarrow> pyval \<Rightarrow> error + pyval" where
  "BaseFont_save self path showProgress formatVersion =
     (case (raiseNotImplementedError self :: error + pyval) of
        Inl e \<Rightarrow> Inl e
      | Inr _ \<Rightarrow> Inr PNone)"

subsection \<open>BaseDict\<close>

text \<open>
  A \<^verbatim>\<open>BaseDict\<close> has the class attributes \<^verbatim>\<open>keyNormalizer\<close> and
  \<^verbatim>\<open>valueNormalizer\<close> (\<^verbatim>\<open>None\<close> in the base class, a function that returns the
  normalized value or raises in a subclass) and the hook \<^verbatim>\<open>_items\<close>. A subclass that
  overrides the hook is given by what its \<^verbatim>\<open>_items()\<close> does (\<open>subclass_items\<close>);
  otherwise the base-class body runs.
\<close>

record basedict = pyobject +
  keyNormalizer :: "(pyval \<Rightarrow> error + pyval) option"
  valueNormalizer :: "(pyval \<Rightarrow> error + pyval) option"
  subclass_items :: "(error + (pyval \<times> pyval) list) option"

definition BaseDict_items_hook :: "basedict \<Rightarrow> error + (pyval \<times> pyval) list option" where
  "BaseDict_items_hook self =
     (case subclass_items self of
        Some r \<Rightarrow> (case r of Inl e \<Rightarrow> Inl e | Inr xs \<Rightarrow> Inr (Some xs))
      | None \<Rightarrow>
         (case (raiseNotImplementedError self :: error + pyval) of
            Inl e \<Rightarrow> Inl e
          | Inr _ \<Rightarrow> Inr None))"

text \<open>
  The hook's result is \<open>Some\<close> list of pairs, or \<open>None\<close> for Python's \<^verbatim>\<open>None\<close> (what the
  base-class body would return if the call in it returned).

  \<^verbatim>\<open>items\<close>: the local variable \<^verbatim>\<open>values\<close> is bound only inside the \<^verbatim>\<open>if\<close>;
  \<^verbatim>\<open>return values\<close> on an unbound local is an \<^verbatim>\<open>UnboundLocalError\<close>. Iterating
  over \<^verbatim>\<open>None\<close> is a \<^verbatim>\<open>TypeError\<close>. The pair
  \<^verbatim>\<open>(keyNormalizer(key), valueNormalizer(value))\<close> evaluates the key first.
\<close>

definition normalize_pair ::
    "(pyval \<Rightarrow> error + pyval) \<Rightarrow> (pyval \<Rightarrow> error + pyval) \<Rightarrow> pyval \<times> pyval
      \<Rightarrow> error + (pyval \<times> pyval)" where
  "normalize_pair kn vn kv =
     (case kn (fst kv) of
        Inl e \<Rightarrow> Inl e
      | Inr k \<Rightarrow> (case vn (snd kv) of Inl e \<Rightarrow> Inl e | Inr v \<Rightarrow> Inr (k, v)))"

definition BaseDict_items :: "basedict \<Rightarrow> error + (pyval \<times> pyval) list" where
  "BaseDict_items self =
     (case BaseDict_items_hook self of
        Inl e \<Rightarrow> Inl e
      | Inr items \<Rightarrow>
         (case
            (if keyNormalizer self \<noteq> None \<and> valueNormalizer self \<noteq> None
             then (case items of
                     None \<Rightarrow> Inl TypeError
                   | Some xs \<Rightarrow>
                      (case comprehension
                              (normalize_pair (the (keyNormalizer self))
                                 (the (valueNormalizer self))) xs of
                         Inl e \<Rightarrow> Inl e
                       | Inr values \<Rightarrow> Inr (Some values)))
             else Inr None)
          of
            Inl e \<Rightarrow> Inl e
          | Inr None \<Rightarrow> Inl (UnboundLocalError ''values'')
          | Inr (Some values) \<Rightarrow> Inr values))"


subsection \<open>dynamicProperty\<close>

text \<open>
  An attribute found on an object is a bound method without further arguments, a bound
  method of one argument, or the value \<^verbatim>\<open>None\<close>. A method runs on the fields \<open>'s\<close> of
  its object and returns a value and the updated fields, or raises. A class is its
  dictionary; an object knows the dictionaries of its class and of the base classes in
  method resolution order, and has its fields.
\<close>

datatype ('s, 'v) attr =
    Method0 "'s \<Rightarrow> error + 'v \<times> 's"
  | Method1 "'v \<Rightarrow> 's \<Rightarrow> error + 'v \<times> 's"
  | NoneValue

record ('s, 'v) pyinstance =
  mro :: "(string \<Rightarrow> ('s, 'v) attr option) list"
  obj_fields :: 's

fun mro_lookup ::
    "(string \<Rightarrow> ('s, 'v) attr option) list \<Rightarrow> string \<Rightarrow> ('s, 'v) attr option" where
  "mro_lookup [] n = None"
| "mro_lookup (c # cs) n = (case c n of Some a \<Rightarrow> Some a | None \<Rightarrow> mro_lookup cs n)"

text \<open>\<^verbatim>\<open>getattr(obj, name, None)\<close>\<close>

definition getattr_or_None :: "('s, 'v) pyinstance \<Rightarrow> string \<Rightarrow> ('s, 'v) attr" where
  "getattr_or_None obj n = (case mro_lookup (mro obj) n of Some a \<Rightarrow> a | None \<Rightarrow> NoneValue)"

record dynamicProperty =
  name :: string
  doc :: "string option"
  getterName :: string
  setterName :: string

text \<open>\<^verbatim>\<open>dynamicProperty.__init__(self, name, doc=None)\<close>\<close>

definition dynamicProperty_init :: "string \<Rightarrow> string option \<Rightarrow> dynamicProperty" where
  "dynamicProperty_init n d =
     \<lparr>name = n, doc = d, getterName = ''_get_'' @ n, setterName = ''_set_'' @ n\<rparr>"

text \<open>
  \<^verbatim>\<open>__get__\<close> calls the getter without arguments and returns its result; \<^verbatim>\<open>__set__\<close>
  calls the setter with the value and drops what it returns. Calling a method with the
  wrong number of arguments is a \<^verbatim>\<open>TypeError\<close>.
\<close>

definition dynamicProperty_get ::
    "dynamicProperty \<Rightarrow> ('s, 'v) pyinstance \<Rightarrow> error + 'v \<times> ('s, 'v) pyinstance" where
  "dynamicProperty_get self obj =
     (case getattr_or_None obj (getterName self) of
        NoneValue \<Rightarrow> Inl (FontPartsError ''no getter for %r'' [PStr (name self)])
      | Method0 getter \<Rightarrow>
          (case getter (obj_fields obj) of
             Inl e \<Rightarrow> Inl e
           | Inr (r, s) \<Rightarrow> Inr (r, obj\<lparr>obj_fields := s\<rparr>))
      | Method1 _ \<Rightarrow> Inl TypeError)"

definition dynamicProperty_set ::
    "dynamicProperty \<Rightarrow> ('s, 'v) pyinstance \<Rightarrow> 'v \<Rightarrow> error + ('s, 'v) pyinstance" where
  "dynamicProperty_set self obj value =
     (case getattr_or_None obj (setterName self) of
        NoneValue \<Rightarrow> Inl (FontPartsError ''no setter for %r'' [PStr (name self)])
      | Method1 setter \<Rightarrow>
          (case setter value (obj_fields obj) of
             Inl e \<Rightarrow> Inl e
           | Inr (r, s) \<Rightarrow> Inr (obj\<lparr>obj_fields := s\<rparr>))
      | Method0 _ \<Rightarrow> Inl TypeError)"

text \<open>
  The classes of the docstring of \<^verbatim>\<open>dynamicProperty\<close>: \<^verbatim>\<open>BaseObject\<close> with
  \<^verbatim>\<open>_get_foo\<close> and \<^verbatim>\<open>_set_foo\<close> on the field \<^verbatim>\<open>_foo\<close>, and \<^verbatim>\<open>MyObject\<close>, which
  overrides only \<^verbatim>\<open>_set_foo\<close> to store \<^verbatim>\<open>value * 100\<close>.
\<close>

definition docstring_BaseObject :: "string \<Rightarrow> (int, int option) attr option" where
  "docstring_BaseObject n =
     (if n = ''_get_foo'' then Some (Method0 (\<lambda>foo. Inr (Some foo, foo)))
      else if n = ''_set_foo'' then Some (Method1 (\<lambda>value foo.
        case value of None \<Rightarrow> Inl TypeError | Some v \<Rightarrow> Inr (None, v)))
      else None)"

definition docstring_MyObject :: "string \<Rightarrow> (int, int option) attr option" where
  "docstring_MyObject n =
     (if n = ''_set_foo'' then Some (Method1 (\<lambda>value foo.
        case value of None \<Rightarrow> Inl TypeError | Some v \<Rightarrow> Inr (None, v * 100)))
      else None)"


section \<open>Parent back-references\<close>

text \<open>
  Objects are named by their identity, a number. A weak reference holds the identity of
  its referent and owns nothing: calling it gives the referent while that object exists
  and \<^verbatim>\<open>None\<close> afterwards. The environment says which objects exist, and gives the
  attributes \<^verbatim>\<open>contour.glyph\<close>, \<^verbatim>\<open>glyph.layer\<close> and \<^verbatim>\<open>glyph.font\<close>, which belong to
  classes (\<^verbatim>\<open>BaseContour\<close>, \<^verbatim>\<open>BaseGlyph\<close>) that are not among the sources.
\<close>

datatype weakref = WeakRef nat

record environment =
  alive :: "nat \<Rightarrow> bool"
  contour_glyph :: "nat \<Rightarrow> error + nat option"
  glyph_layer :: "nat \<Rightarrow> error + nat option"
  glyph_font :: "nat \<Rightarrow> error + nat option"

definition call_weakref :: "environment \<Rightarrow> weakref \<Rightarrow> nat option" where
  "call_weakref env r = (case r of WeakRef i \<Rightarrow> if alive env i then Some i else None)"

text \<open>\<^verbatim>\<open>weakref.ref(obj)\<close>\<close>

definition weakref_ref :: "nat \<Rightarrow> weakref" where
  "weakref_ref obj = WeakRef obj"

subsection \<open>BasePoint\<close>

text \<open>
  \<open>point_contour\<close> is the attribute \<^verbatim>\<open>_contour\<close>, \<^verbatim>\<open>None\<close> in the class. The other
  fields are what the environment of a point stores behind \<^verbatim>\<open>_get_x\<close>, \<^verbatim>\<open>_set_x\<close>,
  \<^verbatim>\<open>_get_y\<close>, \<^verbatim>\<open>_set_y\<close>, \<^verbatim>\<open>_get_type\<close> and \<^verbatim>\<open>_set_type\<close>.
\<close>

record basepoint = pyobject +
  point_contour :: "weakref option"
  point_type :: string
  point_x :: real
  point_y :: real






subsection \<open>BaseSegment\<close>

text \<open>
  \<open>segment_contour\<close> is \<^verbatim>\<open>_contour\<close>; \<open>segment_points\<close> is the tuple \<^verbatim>\<open>_points\<close> of
  the segment's point objects.
\<close>

record basesegment = pyobject +
  segment_contour :: "weakref option"
  segment_points :: "nat list"






subsection \<open>BaseFeatures\<close>










section \<open>Transformations\<close>

text \<open>
  \<^verbatim>\<open>fontTools.misc.transform\<close> is a library outside the repository. Of it the code uses
  \<^verbatim>\<open>Transform(xx, xy, yx, yy, dx, dy).transformPoint((x, y))\<close>, which is
  \<^verbatim>\<open>(xx*x + yx*y + dx, xy*x + yy*y + dy)\<close>, and \<^verbatim>\<open>Offset(x, y)\<close>, which is
  \<^verbatim>\<open>Transform(1, 0, 0, 1, x, y)\<close>. Numbers are the reals they denote.
\<close>

type_synonym matrix = "real \<times> real \<times> real \<times> real \<times> real \<times> real"

definition transformPoint :: "matrix \<Rightarrow> real \<times> real \<Rightarrow> real \<times> real" where
  "transformPoint t p =
     (case t of (xx, xy, yx, yy, dx, dy) \<Rightarrow>
        case p of (x, y) \<Rightarrow> (xx * x + yx * y + dx, xy * x + yy * y + dy))"

definition Offset :: "real \<Rightarrow> real \<Rightarrow> matrix" where
  "Offset x y = (1, 0, 0, 1, x, y)"

text \<open>
  \<^verbatim>\<open>TransformationMixin.transformBy\<close>, \<^verbatim>\<open>BasePoint._transformBy\<close>,
  \<^verbatim>\<open>TransformationMixin.moveBy\<close> and \<^verbatim>\<open>TransformationMixin._moveBy\<close> (here
  \<open>TransformationMixin_moveBy_hook\<close>) on a point, as they call one another. The arguments
  are taken well-typed, a matrix of six numbers and an origin that is a pair of numbers
  or \<^verbatim>\<open>None\<close>: the functions of \<^verbatim>\<open>fontParts.base.normalizers\<close> (not among the
  sources) then hand them on as they are. The assignments \<^verbatim>\<open>self.x = x\<close> and
  \<^verbatim>\<open>self.y = y\<close> store the coordinates.
\<close>

function TransformationMixin_transformBy ::
    "matrix \<Rightarrow> (real \<times> real) option \<Rightarrow> basepoint \<Rightarrow> basepoint"
  and BasePoint_transformBy ::
    "matrix \<Rightarrow> real \<times> real \<Rightarrow> real \<times> real \<Rightarrow> basepoint \<Rightarrow> basepoint"
  and TransformationMixin_moveBy :: "real \<times> real \<Rightarrow> basepoint \<Rightarrow> basepoint"
  and TransformationMixin_moveBy_hook :: "real \<times> real \<Rightarrow> basepoint \<Rightarrow> basepoint"
where
  "TransformationMixin_transformBy matrix origin self =
     (let origin = (case origin of None \<Rightarrow> (0, 0) | Some origin \<Rightarrow> origin);
          originOffset =
            (if origin = (0, 0) then (0, 0)
             else (fst origin - fst (transformPoint matrix origin),
                   snd origin - snd (transformPoint matrix origin)))
      in BasePoint_transformBy matrix origin originOffset self)"
| "BasePoint_transformBy matrix origin originOffset self =
     (let xy = transformPoint matrix (point_x self, point_y self);
          self = self\<lparr>point_x := fst xy\<rparr>;
          self = self\<lparr>point_y := snd xy\<rparr>
      in if originOffset \<noteq> (0, 0) then TransformationMixin_moveBy originOffset self
         else self)"
| "TransformationMixin_moveBy value self = TransformationMixin_moveBy_hook value self"
| "TransformationMixin_moveBy_hook value self =
     TransformationMixin_transformBy (Offset (fst value) (snd value)) None self"
  by pat_completeness auto
termination
  by (relation "measure (\<lambda>a. case a of
        Inl (Inl (m, origin, p)) \<Rightarrow> (if origin = None \<or> origin = Some (0, 0) then 1 else 5)
      | Inl (Inr (m, origin, off, p)) \<Rightarrow> (if off = (0, 0) then 0 else 4)
      | Inr (Inl (v, p)) \<Rightarrow> 3
      | Inr (Inr (v, p)) \<Rightarrow> 2)")
    (auto simp: Let_def split: option.splits if_splits)



section \<open>font.py: layers\<close>

subsection \<open>validateLayerName\<close>



subsection \<open>BaseFont.getLayer and BaseFont.newLayer\<close>

text \<open>
  The functions of \<^verbatim>\<open>fontParts.base.normalizers\<close> that \<^verbatim>\<open>newLayer\<close>,
  \<^verbatim>\<open>getLayer\<close> and the type properties of points and segments call are not among the
  sources: they are parameters.
  \<^verbatim>\<open>normalizeLayerOrder\<close> returns its argument, as \<^verbatim>\<open>validateLayerOrder\<close> of
  \<^verbatim>\<open>validators.py\<close> does.
\<close>

record normalizers =
  normalizeLayerName :: "pyval \<Rightarrow> error + pyval"
  normalizeColor :: "pyval \<Rightarrow> error + pyval"
  normalizeSegmentType :: "string \<Rightarrow> error + string"
  normalizePointType :: "string \<Rightarrow> error + string"

text \<open>
  Modelled from the spec: \<^verbatim>\<open>BaseLayer\<close> is not among the sources. A layer is
  modelled by the three attributes \<^verbatim>\<open>newLayer\<close> and \<^verbatim>\<open>getLayer\<close> use: its name,
  its color, and its parent back-reference, a non-owning pointer to its font.
  Assigning \<^verbatim>\<open>layer.color\<close> normalizes the color and stores it.
\<close>

record baselayer =
  layer_name :: pyval
  layer_color :: pyval
  layer_font :: "weakref option"

definition BaseLayer_get_font :: "environment \<Rightarrow> baselayer \<Rightarrow> nat option" where
  "BaseLayer_get_font env self =
     (if layer_font self = None then None else call_weakref env (the (layer_font self)))"

definition BaseLayer_set_font :: "baselayer \<Rightarrow> nat \<Rightarrow> baselayer" where
  "BaseLayer_set_font self font = self\<lparr>layer_font := Some (weakref_ref font)\<rparr>"


text \<open>
  A font whose environment stores the layers (what \<^verbatim>\<open>_get_layers\<close> returns) and the
  layer order (what \<^verbatim>\<open>_get_layerOrder\<close> returns). A layer object is referred to by
  its position in \<open>font_layers\<close>; a method that changes a layer returns the font with
  that layer changed.
\<close>

record basefont = pyobject +
  font_id :: nat
  font_layers :: "baselayer list"
  font_layerOrder :: "pyval list"

text \<open>\<^verbatim>\<open>_setFontInLayer\<close>: \<^verbatim>\<open>if layer.font is None: layer.font = self\<close>\<close>

definition BaseFont_setFontInLayer :: "environment \<Rightarrow> basefont \<Rightarrow> baselayer \<Rightarrow> baselayer" where
  "BaseFont_setFontInLayer env self layer =
     (if BaseLayer_get_font env layer = None then BaseLayer_set_font layer (font_id self)
      else layer)"

text \<open>
  \<^verbatim>\<open>_get_base_layers\<close>, the getter of \<^verbatim>\<open>self.layers\<close>: every layer gets its font
  set; the layers returned are those of the font returned.
\<close>

definition BaseFont_get_base_layers :: "environment \<Rightarrow> basefont \<Rightarrow> basefont" where
  "BaseFont_get_base_layers env self =
     self\<lparr>font_layers := map (BaseFont_setFontInLayer env self) (font_layers self)\<rparr>"











section \<open>segment.py: the type of a segment\<close>

text \<open>
  Modelled from the spec: \<^verbatim>\<open>BaseContour\<close> is not among the sources. A contour is
  modelled by what \<^verbatim>\<open>_set_type\<close> uses of it: its own identity, the class of its
  points (\<^verbatim>\<open>pointClass\<close> in \<^verbatim>\<open>nonelab/contour.py\<close>), the point objects by
  identity, the identities of its points in order (\<^verbatim>\<open>contour.points\<close>), and the
  identity the next new point gets. \<^verbatim>\<open>insertPoint(index, position, type)\<close> makes a new
  point of the contour and puts it at \<^verbatim>\<open>index\<close> of the points, as
  \<^verbatim>\<open>_insertPoint\<close> of \<^verbatim>\<open>nonelab/contour.py\<close> does; \<^verbatim>\<open>removePoint(point)\<close> takes
  the point out of the points, at the index \<^verbatim>\<open>points.index(point)\<close>.
\<close>

record basecontour =
  contour_id :: nat
  contour_pointClass :: string
  contour_objects :: "nat \<Rightarrow> basepoint option"
  contour_points :: "nat list"
  contour_next :: nat



text \<open>\<^verbatim>\<open>xs[-1]\<close>\<close>

definition py_last :: "'a list \<Rightarrow> error + 'a" where
  "py_last xs = (if xs = [] then Inl IndexError else Inr (last xs))"

definition point_object :: "basecontour \<Rightarrow> nat \<Rightarrow> error + basepoint" where
  "point_object contour p =
     (case contour_objects contour p of None \<Rightarrow> Inl Dangling | Some point \<Rightarrow> Inr point)"



text \<open>
  The properties of \<^verbatim>\<open>BasePoint\<close> and \<^verbatim>\<open>BaseSegment\<close> that \<^verbatim>\<open>_set_type\<close> reads
  and writes: \<^verbatim>\<open>point.type\<close> (\<^verbatim>\<open>_get_base_type\<close>, \<^verbatim>\<open>_set_base_type\<close>),
  \<^verbatim>\<open>segment.onCurve\<close> (\<^verbatim>\<open>self.points[-1]\<close>), \<^verbatim>\<open>segment.offCurve\<close>
  (\<^verbatim>\<open>self.points[:-1]\<close>) and \<^verbatim>\<open>segment.type\<close> (\<^verbatim>\<open>_get_type\<close>, the type of the
  on-curve point, and \<^verbatim>\<open>_get_base_type\<close>).
\<close>

definition BasePoint_get_base_type :: "normalizers \<Rightarrow> basepoint \<Rightarrow> error + string" where
  "BasePoint_get_base_type nz self = normalizePointType nz (point_type self)"


definition BaseSegment_get_onCurve :: "basesegment \<Rightarrow> error + nat" where
  "BaseSegment_get_onCurve self = py_last (segment_points self)"


definition BaseSegment_get_type :: "normalizers \<Rightarrow> basecontour \<Rightarrow> basesegment \<Rightarrow> error + string" where
  "BaseSegment_get_type nz contour self =
     (case BaseSegment_get_onCurve self of
        Inl e \<Rightarrow> Inl e
      | Inr on \<Rightarrow>
         (case point_object contour on of
            Inl e \<Rightarrow> Inl e
          | Inr point \<Rightarrow> BasePoint_get_base_type nz point))"

definition BaseSegment_get_base_type ::
    "normalizers \<Rightarrow> basecontour \<Rightarrow> basesegment \<Rightarrow> error + string" where
  "BaseSegment_get_base_type nz contour self =
     (case BaseSegment_get_type nz contour self of
        Inl e \<Rightarrow> Inl e
      | Inr value \<Rightarrow> normalizeSegmentType nz value)"










section \<open>Properties of the validators\<close>

lemma validateIdentifier_loop_eq:
  "validateIdentifier_loop v cs =
     (if \<exists>c\<in>set cs. c < 0x20 \<or> c > 0x7E
      then Some (FontPartsError
        ''The identifier string (%r) contains a character out size of the range 0x20 - 0x7E.'' [v])
      else None)"
  by (induction cs) auto

lemma ords_py_len: "ords v = Inr cs \<Longrightarrow> isinstance_basestring v \<and> py_len v = Inr (length cs)"
  by (cases v) auto

lemma not_basestring_ords: "\<not> isinstance_basestring v \<Longrightarrow> \<exists>e. ords v = Inl e"
  by (cases v) auto

lemma validateIdentifier_string:
  assumes "ords v = Inr cs"
  shows "validateIdentifier v =
     (if length cs > 100
      then Inl (FontPartsError
            ''The identifier string has a langth (%d) greater than the maximum allowed (100).''
            [PInt (int (length cs))])
      else if \<exists>c\<in>set cs. c < 0x20 \<or> c > 0x7E
      then Inl (FontPartsError
        ''The identifier string (%r) contains a character out size of the range 0x20 - 0x7E.'' [v])
      else Inr v)"
  using ords_py_len[OF assms] assms
  by (simp add: validateIdentifier_def validateIdentifier_loop_eq)

lemma validateIdentifier_other:
  assumes "\<not> isinstance_basestring v"
  shows "validateIdentifier v = Inl (FontPartsError ''Identifiers must be strings, not %s.'' [PStr (type_name v)])"
  using assms by (simp add: validateIdentifier_def)

text \<open>
  Claim C6. \<^verbatim>\<open>validateIdentifier(value)\<close> raises \<^verbatim>\<open>FontPartsError\<close> if and only if
  \<^verbatim>\<open>value\<close> is not a string, or it is longer than 100 characters, or one of its
  characters has a code point below 0x20 or above 0x7E. It has no other outcome than
  that error or returning \<^verbatim>\<open>value\<close> itself, and it returns \<^verbatim>\<open>value\<close> unchanged
  for every string of at most 100 characters that all lie in 0x20 to 0x7E.
\<close>

theorem validateIdentifier_spec:
  "((\<exists>t a. validateIdentifier v = Inl (FontPartsError t a)) \<longleftrightarrow>
      (\<not> isinstance_basestring v
       \<or> (\<exists>cs. ords v = Inr cs \<and> (length cs > 100 \<or> (\<exists>c\<in>set cs. c < 0x20 \<or> c > 0x7E)))))
   \<and> (validateIdentifier v = Inr v \<or> (\<exists>t a. validateIdentifier v = Inl (FontPartsError t a)))
   \<and> (\<forall>cs. ords v = Inr cs \<longrightarrow> length cs \<le> 100 \<longrightarrow> (\<forall>c\<in>set cs. 0x20 \<le> c \<and> c \<le> 0x7E)
         \<longrightarrow> validateIdentifier v = Inr v)"
proof (cases "isinstance_basestring v")
  case False
  from not_basestring_ords[OF False] validateIdentifier_other[OF False] False
  show ?thesis by auto
next
  case True
  then obtain cs where cs: "ords v = Inr cs"
    by (cases v) simp_all
  show ?thesis
    unfolding validateIdentifier_string[OF cs] using cs True
    by (auto simp: not_less not_le)
qed

theorem validateIdentifier_spec_witness:
  "validateIdentifier (PStr ''ILHGJlygfds'') = Inr (PStr ''ILHGJlygfds'')
   \<and> (\<exists>t a. validateIdentifier (PUnicode [0x61, 0x7F]) = Inl (FontPartsError t a))
   \<and> (\<exists>t a. validateIdentifier (PInt 7) = Inl (FontPartsError t a))"
  using validateIdentifier_spec[of "PStr ''ILHGJlygfds''"]
    validateIdentifier_spec[of "PUnicode [0x61, 0x7F]"]
    validateIdentifier_spec[of "PInt 7"]
  by simp









section \<open>Properties of base.py\<close>


text \<open>
  Claim C10. \<^verbatim>\<open>raiseNotImplementedError()\<close> raises a \<^verbatim>\<open>FontPartsError\<close> whose message
  is formatted with the name of the receiver's class, and the base-class hooks
  \<^verbatim>\<open>BaseFeatures._get_text\<close>, \<^verbatim>\<open>BaseFeatures._set_text\<close>, \<^verbatim>\<open>BaseFont._save\<close> and
  \<^verbatim>\<open>BaseDict._items\<close> (the hook of a dictionary that does not override it) end with
  that same error: none of them returns.
\<close>

theorem hooks_raise:
  "(raiseNotImplementedError self :: error + pyval) =
      Inl (FontPartsError ''The {className} subclass does not implement this method.''
             [PStr (class_name self)])
   \<and> BaseFeatures_get_text self = Inl (FontPartsError ''The {className} subclass does not implement this method.''
             [PStr (class_name self)])
   \<and> BaseFeatures_set_text self v = Inl (FontPartsError ''The {className} subclass does not implement this method.''
             [PStr (class_name self)])
   \<and> BaseFont_save self path showProgress formatVersion = Inl (FontPartsError ''The {className} subclass does not implement this method.''
             [PStr (class_name self)])
   \<and> BaseDict_items_hook (d\<lparr>subclass_items := None\<rparr>) = Inl (FontPartsError ''The {className} subclass does not implement this method.''
             [PStr (class_name d)])"
  by (simp add: raiseNotImplementedError_def BaseFeatures_get_text_def BaseFeatures_set_text_def
      BaseFont_save_def BaseDict_items_hook_def)

lemma comprehension_normalize_pair:
  "\<forall>(k, v)\<in>set xs. kn k = Inr (f k) \<and> vn v = Inr (g v) \<Longrightarrow>
     comprehension (normalize_pair kn vn) xs = Inr (map (\<lambda>(k, v). (f k, g v)) xs)"
  by (induction xs) (auto simp: normalize_pair_def)

text \<open>
  Claim C8. When both normalizers of a \<^verbatim>\<open>BaseDict\<close> are set and they return on every
  pair that \<^verbatim>\<open>_items()\<close> yields, \<^verbatim>\<open>items()\<close> returns exactly the list of the pairs
  \<^verbatim>\<open>(keyNormalizer(k), valueNormalizer(v))\<close>, in order. When either normalizer is
  \<^verbatim>\<open>None\<close>, \<^verbatim>\<open>items()\<close> returns nothing at all: whenever \<^verbatim>\<open>_items()\<close> returns,
  the call ends in the \<^verbatim>\<open>UnboundLocalError\<close> of the local variable \<^verbatim>\<open>values\<close>.
\<close>

theorem BaseDict_items_normalized:
  "(keyNormalizer d = Some kn \<longrightarrow> valueNormalizer d = Some vn
       \<longrightarrow> BaseDict_items_hook d = Inr (Some xs)
       \<longrightarrow> (\<forall>(k, v)\<in>set xs. kn k = Inr (f k) \<and> vn v = Inr (g v))
       \<longrightarrow> BaseDict_items d = Inr (map (\<lambda>(k, v). (f k, g v)) xs))
   \<and> (keyNormalizer d = None \<or> valueNormalizer d = None
       \<longrightarrow> (\<forall>r. BaseDict_items d \<noteq> Inr r)
           \<and> (\<forall>ys. BaseDict_items_hook d = Inr ys
                 \<longrightarrow> BaseDict_items d = Inl (UnboundLocalError ''values'')))"
proof (intro conjI allI impI)
  assume "keyNormalizer d = Some kn" "valueNormalizer d = Some vn"
    "BaseDict_items_hook d = Inr (Some xs)"
    "\<forall>(k, v)\<in>set xs. kn k = Inr (f k) \<and> vn v = Inr (g v)"
  then show "BaseDict_items d = Inr (map (\<lambda>(k, v). (f k, g v)) xs)"
    by (simp add: BaseDict_items_def comprehension_normalize_pair)
next
  fix r
  assume "keyNormalizer d = None \<or> valueNormalizer d = None"
  then show "BaseDict_items d \<noteq> Inr r"
    by (auto simp: BaseDict_items_def split: sum.splits)
next
  fix ys
  assume "keyNormalizer d = None \<or> valueNormalizer d = None" "BaseDict_items_hook d = Inr ys"
  then show "BaseDict_items d = Inl (UnboundLocalError ''values'')"
    by (auto simp: BaseDict_items_def)
qed

theorem BaseDict_items_normalized_witness:
  "BaseDict_items \<lparr>class_name = ''RKerning'', keyNormalizer = Some validateIdentifier,
       valueNormalizer = Some py_float,
       subclass_items = Some (Inr [(PStr ''A'', PInt 1), (PStr ''B'', PFloat 2)])\<rparr>
     = Inr [(PStr ''A'', PFloat 1), (PStr ''B'', PFloat 2)]
   \<and> BaseDict_items \<lparr>class_name = ''RKerning'', keyNormalizer = Some validateIdentifier,
       valueNormalizer = None,
       subclass_items = Some (Inr [(PStr ''A'', PInt 1), (PStr ''B'', PFloat 2)])\<rparr>
     = Inl (UnboundLocalError ''values'')"
proof -
  let ?xs = "[(PStr ''A'', PInt 1), (PStr ''B'', PFloat 2)]"
  let ?d = "\<lparr>class_name = ''RKerning'', keyNormalizer = Some validateIdentifier,
       valueNormalizer = Some py_float, subclass_items = Some (Inr ?xs)\<rparr>"
  let ?e = "\<lparr>class_name = ''RKerning'', keyNormalizer = Some validateIdentifier,
       valueNormalizer = None, subclass_items = Some (Inr ?xs)\<rparr>"
  have h: "BaseDict_items_hook ?d = Inr (Some ?xs)" "BaseDict_items_hook ?e = Inr (Some ?xs)"
    by (simp_all add: BaseDict_items_hook_def)
  have n: "\<forall>(k, v)\<in>set ?xs. validateIdentifier k = Inr (id k)
      \<and> py_float v = Inr ((\<lambda>v. case v of PInt i \<Rightarrow> PFloat (of_int i) | _ \<Rightarrow> v) v)"
    by (simp add: validateIdentifier_def)
  from BaseDict_items_normalized[where d = ?d and kn = validateIdentifier and vn = py_float
      and xs = ?xs and f = id and g = "\<lambda>v. case v of PInt i \<Rightarrow> PFloat (of_int i) | _ \<Rightarrow> v"] h(1) n
  have "BaseDict_items ?d = Inr (map (\<lambda>(k, v). (id k, (case v of PInt i \<Rightarrow> PFloat (of_int i) | _ \<Rightarrow> v))) ?xs)"
    by simp
  moreover from BaseDict_items_normalized[where d = ?e] h(2)
  have "BaseDict_items ?e = Inl (UnboundLocalError ''values'')" by simp
  ultimately show ?thesis by simp
qed

text \<open>
  Claim C5. Reading a \<^verbatim>\<open>dynamicProperty\<close> named \<open>n\<close> looks \<^verbatim>\<open>_get_<n>\<close> up on the
  object when the attribute is read and returns what that method returns; without such
  a method it raises \<^verbatim>\<open>FontPartsError\<close>. Assigning looks \<^verbatim>\<open>_set_<n>\<close> up when the
  attribute is assigned and calls it with the value; without such a method it raises
  \<^verbatim>\<open>FontPartsError\<close>. Hence for an object of a subclass that overrides only
  \<^verbatim>\<open>_set_<n>\<close>, assignment runs the subclass's setter and reading still runs the
  base class's getter, with the same property descriptor.
\<close>

theorem dynamicProperty_dispatch:
  "(mro_lookup (mro obj) (''_get_'' @ n) = Some (Method0 g) \<longrightarrow>
      dynamicProperty_get (dynamicProperty_init n d) obj =
        (case g (obj_fields obj) of
           Inl e \<Rightarrow> Inl e
         | Inr (r, s) \<Rightarrow> Inr (r, obj\<lparr>obj_fields := s\<rparr>)))
   \<and> (mro_lookup (mro obj) (''_get_'' @ n) = None \<longrightarrow>
      dynamicProperty_get (dynamicProperty_init n d) obj =
        Inl (FontPartsError ''no getter for %r'' [PStr n]))
   \<and> (mro_lookup (mro obj) (''_set_'' @ n) = Some (Method1 st) \<longrightarrow>
      dynamicProperty_set (dynamicProperty_init n d) obj v =
        (case st v (obj_fields obj) of
           Inl e \<Rightarrow> Inl e
         | Inr (r, s) \<Rightarrow> Inr (obj\<lparr>obj_fields := s\<rparr>)))
   \<and> (mro_lookup (mro obj) (''_set_'' @ n) = None \<longrightarrow>
      dynamicProperty_set (dynamicProperty_init n d) obj v =
        Inl (FontPartsError ''no setter for %r'' [PStr n]))
   \<and> (sub (''_set_'' @ n) = Some (Method1 st') \<longrightarrow> sub (''_get_'' @ n) = None
       \<longrightarrow> base (''_get_'' @ n) = Some (Method0 g') \<longrightarrow>
      dynamicProperty_set (dynamicProperty_init n d) \<lparr>mro = sub # base # rest, obj_fields = x\<rparr> v =
        (case st' v x of
           Inl e \<Rightarrow> Inl e
         | Inr (r, s) \<Rightarrow> Inr \<lparr>mro = sub # base # rest, obj_fields = s\<rparr>)
      \<and> dynamicProperty_get (dynamicProperty_init n d) \<lparr>mro = sub # base # rest, obj_fields = x\<rparr> =
        (case g' x of
           Inl e \<Rightarrow> Inl e
         | Inr (r, s) \<Rightarrow> Inr (r, \<lparr>mro = sub # base # rest, obj_fields = s\<rparr>)))"
  by (auto simp: dynamicProperty_get_def dynamicProperty_set_def dynamicProperty_init_def
      getattr_or_None_def split: sum.splits)

theorem dynamicProperty_dispatch_witness:
  "dynamicProperty_get (dynamicProperty_init ''foo'' None)
      \<lparr>mro = [docstring_MyObject, docstring_BaseObject], obj_fields = 1\<rparr>
     = Inr (Some 1, \<lparr>mro = [docstring_MyObject, docstring_BaseObject], obj_fields = 1\<rparr>)
   \<and> dynamicProperty_set (dynamicProperty_init ''foo'' None)
      \<lparr>mro = [docstring_MyObject, docstring_BaseObject], obj_fields = 1\<rparr> (Some 2)
     = Inr \<lparr>mro = [docstring_MyObject, docstring_BaseObject], obj_fields = 200\<rparr>
   \<and> dynamicProperty_get (dynamicProperty_init ''foo'' None)
      \<lparr>mro = [docstring_MyObject, docstring_BaseObject], obj_fields = 200\<rparr>
     = Inr (Some 200, \<lparr>mro = [docstring_MyObject, docstring_BaseObject], obj_fields = 200\<rparr>)
   \<and> dynamicProperty_get (dynamicProperty_init ''bar'' None)
      \<lparr>mro = [docstring_MyObject, docstring_BaseObject], obj_fields = 1\<rparr>
     = Inl (FontPartsError ''no getter for %r'' [PStr ''bar''])
   \<and> dynamicProperty_set (dynamicProperty_init ''bar'' None)
      \<lparr>mro = [docstring_MyObject, docstring_BaseObject], obj_fields = 1\<rparr> (Some 2)
     = Inl (FontPartsError ''no setter for %r'' [PStr ''bar''])"
proof -
  let ?get = "\<lambda>foo::int. Inr (Some foo, foo) :: error + int option \<times> int"
  let ?set = "\<lambda>(value::int option) (foo::int).
        case value of None \<Rightarrow> Inl TypeError | Some v \<Rightarrow> (Inr (None, v * 100) :: error + int option \<times> int)"
  have s: "docstring_MyObject (''_set_'' @ ''foo'') = Some (Method1 ?set)"
    "docstring_MyObject (''_get_'' @ ''foo'') = None"
    "docstring_BaseObject (''_get_'' @ ''foo'') = Some (Method0 ?get)"
    by (simp_all add: docstring_MyObject_def docstring_BaseObject_def)
  have b: "mro_lookup [docstring_MyObject, docstring_BaseObject] (''_get_'' @ ''bar'') = None"
    "mro_lookup [docstring_MyObject, docstring_BaseObject] (''_set_'' @ ''bar'') = None"
    by (simp_all add: docstring_MyObject_def docstring_BaseObject_def)
  let ?m = "\<lambda>x::int. \<lparr>mro = [docstring_MyObject, docstring_BaseObject], obj_fields = x\<rparr>"
  note t1 = dynamicProperty_dispatch[where n = "''foo''" and d = None and sub = docstring_MyObject
      and base = docstring_BaseObject and rest = "[]" and st' = ?set and g' = ?get
      and st = ?set and g = ?get and v = "Some 2"]
  note t2 = dynamicProperty_dispatch[where n = "''bar''" and d = None and obj = "?m 1"
      and v = "Some 2" and sub = docstring_MyObject and base = docstring_BaseObject
      and rest = "[]" and st' = ?set and g' = ?get and st = ?set and g = ?get and x = 1]
  from t1[where x = 1 and obj = "?m 1"] s
  have a1: "dynamicProperty_get (dynamicProperty_init ''foo'' None) (?m 1) = Inr (Some 1, ?m 1)"
    and a2: "dynamicProperty_set (dynamicProperty_init ''foo'' None) (?m 1) (Some 2) = Inr (?m 200)"
    by simp_all
  from t1[where x = 200 and obj = "?m 200"] s
  have a3: "dynamicProperty_get (dynamicProperty_init ''foo'' None) (?m 200)
      = Inr (Some 200, ?m 200)"
    by simp
  from t2 b
  have a4: "dynamicProperty_get (dynamicProperty_init ''bar'' None) (?m 1)
      = Inl (FontPartsError ''no getter for %r'' [PStr ''bar''])"
    and a5: "dynamicProperty_set (dynamicProperty_init ''bar'' None) (?m 1) (Some 2)
      = Inl (FontPartsError ''no setter for %r'' [PStr ''bar''])"
    by simp_all
  from a1 a2 a3 a4 a5 show ?thesis by simp
qed


section \<open>Properties of the parent back-references\<close>









section \<open>Properties of the transformations\<close>









section \<open>Properties of the layers of a font\<close>

lemma setFontInLayer_font_id:
  "font_id g = font_id f \<Longrightarrow> BaseFont_setFontInLayer env g = BaseFont_setFontInLayer env f"
  by (rule ext) (simp add: BaseFont_setFontInLayer_def)

lemma setFontInLayer_layers_update [simp]:
  "BaseFont_setFontInLayer env (f\<lparr>font_layers := ls\<rparr>) = BaseFont_setFontInLayer env f"
  by (rule setFontInLayer_font_id) simp


lemma setFontInLayer_name [simp]:
  "layer_name (BaseFont_setFontInLayer env f l) = layer_name l"
  by (simp add: BaseFont_setFontInLayer_def BaseLayer_set_font_def)

lemma setFontInLayer_color [simp]:
  "layer_color (BaseFont_setFontInLayer env f l) = layer_color l"
  by (simp add: BaseFont_setFontInLayer_def BaseLayer_set_font_def)




lemma get_base_layers_simps [simp]:
  "font_id (BaseFont_get_base_layers env f) = font_id f"
  "font_layerOrder (BaseFont_get_base_layers env f) = font_layerOrder f"
  "font_layers (BaseFont_get_base_layers env f) = map (BaseFont_setFontInLayer env f) (font_layers f)"
  by (simp_all add: BaseFont_get_base_layers_def)








section \<open>Properties of the type of a segment\<close>





lemma insert_nth: "j \<le> length xs \<Longrightarrow> (take j xs @ n # drop j xs) ! j = n"
  by (simp add: nth_append)

lemma get_base_type_onCurve:
  assumes "BaseSegment_get_base_type nz ct s = Inr old" "segment_points s = offs @ [on]"
    "contour_objects ct on = Some pt"
  shows "\<exists>t. normalizePointType nz (point_type pt) = Inr t \<and> normalizeSegmentType nz t = Inr old"
  using assms
  by (auto simp: BaseSegment_get_base_type_def BaseSegment_get_type_def BaseSegment_get_onCurve_def
      py_last_def point_object_def BasePoint_get_base_type_def split: sum.splits)





end
